theory Spec2Isabelle
  imports Main
begin

section \<open>The relational store\<close>

text \<open>
  Table \<open>[functional].[note]\<close> (alias \<open>nt\<close>): one record per row, one field per column.
  \<open>DATETIME2\<close> values are points on a discrete time line.
\<close>

record note_row =
  nt_idNote :: int
  nt_idAccount :: int
  nt_idUser :: int
  nt_title :: string
  nt_content :: string
  nt_dateCreated :: nat
  nt_dateModified :: nat
  nt_deleted :: bool

text \<open>
  Table \<open>[security].[user]\<close> (alias \<open>usr\<close>): the three columns the procedure reads.
\<close>

record user_row =
  usr_idUser :: int
  usr_idAccount :: int
  usr_deleted :: bool

text \<open>
  The database: the keys of \<open>[subscription].[account]\<close> (target of \<open>fkNote_Account\<close>), the
  user rows, the note rows in insertion order, and the last value handed out by the
  \<open>IDENTITY(1, 1)\<close> column \<open>idNote\<close> (0 before the first insert).
\<close>

record database =
  account_tbl :: "int list"
  user_tbl :: "user_row list"
  note_tbl :: "note_row list"
  note_identity :: int

section \<open>Errors\<close>

text \<open>An error raised by the engine or by \<open>THROW\<close>: its number and its message.\<close>

datatype sql_error = SqlError (err_number: int) (err_message: string)

text \<open>\<open>;THROW 51000, msg, 1;\<close>\<close>

definition THROW_51000 :: "string \<Rightarrow> sql_error" where
  "THROW_51000 msg = SqlError 51000 msg"

section \<open>String built-ins of the procedure\<close>

text \<open>
  \<open>LTRIM\<close> and \<open>RTRIM\<close> remove the space character (code 32) and nothing else;
  \<open>LEN\<close> counts characters without the trailing spaces.
\<close>

definition LTRIM :: "string \<Rightarrow> string" where
  "LTRIM s = dropWhile (\<lambda>c. c = CHR '' '') s"

definition RTRIM :: "string \<Rightarrow> string" where
  "RTRIM s = rev (dropWhile (\<lambda>c. c = CHR '' '') (rev s))"

definition LEN :: "string \<Rightarrow> nat" where
  "LEN s = length (RTRIM s)"

section \<open>The INSERT statement\<close>

text \<open>
  One \<open>INSERT INTO [functional].[note]\<close> of a row given without its \<open>idNote\<close>. The statement
  fails when the title does not fit \<open>NVARCHAR(255)\<close>, when the next identity value does not
  fit \<open>INTEGER\<close>, and when a foreign key has no target; a failed statement adds no row.
  An identity value taken by a statement that then violates a constraint is not given back.
\<close>

definition INSERT_note :: "database \<Rightarrow> note_row \<Rightarrow> (sql_error + int) \<times> database" where
  "INSERT_note db row =
     (if length (nt_title row) > 255 then
        (Inl (SqlError 8152 ''String or binary data would be truncated.''), db)
      else if note_identity db + 1 > 2147483647 then
        (Inl (SqlError 8115 ''Arithmetic overflow error converting IDENTITY to data type int.''), db)
      else
        let new_id = note_identity db + 1;
            db1 = db\<lparr>note_identity := new_id\<rparr>
        in if nt_idAccount row \<notin> set (account_tbl db) then
             (Inl (SqlError 547 ''The INSERT statement conflicted with the FOREIGN KEY constraint fkNote_Account.''), db1)
           else if nt_idUser row \<notin> usr_idUser ` set (user_tbl db) then
             (Inl (SqlError 547 ''The INSERT statement conflicted with the FOREIGN KEY constraint fkNote_User.''), db1)
           else
             (Inr new_id, db1\<lparr>note_tbl := note_tbl db @ [row\<lparr>nt_idNote := new_id\<rparr>]\<rparr>))"

text \<open>
  \<open>ROLLBACK TRAN\<close>: the tables go back to their contents at \<open>BEGIN TRAN\<close>; the identity
  counter is not part of the transaction.
\<close>

definition ROLLBACK_TRAN :: "database \<Rightarrow> database \<Rightarrow> database" where
  "ROLLBACK_TRAN snapshot db = db\<lparr>note_tbl := note_tbl snapshot\<rparr>"

section \<open>Procedure \<open>[functional].[spNoteCreate]\<close>\<close>

text \<open>The arguments of a call; \<open>None\<close> is \<open>NULL\<close>.\<close>

record sp_args =
  arg_idAccount :: "int option"
  arg_idUser :: "int option"
  arg_title :: "string option"
  arg_content :: "string option"

text \<open>The parameters once the checks have established that none is \<open>NULL\<close>.\<close>

record sp_params =
  p_idAccount :: int
  p_idUser :: int
  p_title :: string
  p_content :: string

text \<open>
  The parameter is declared \<open>@title NVARCHAR(255)\<close>: an argument longer than that is cut to
  its first 255 characters when it is bound, and no error is raised.
\<close>

definition bind_NVARCHAR_255 :: "string \<Rightarrow> string" where
  "bind_NVARCHAR_255 s = take 255 s"

text \<open>
  \<open>EXISTS (SELECT * FROM [security].[user] usr WHERE usr.[idUser] = @idUser
  AND usr.[idAccount] = @idAccount AND usr.[deleted] = 0)\<close>
\<close>

definition EXISTS_user :: "database \<Rightarrow> int \<Rightarrow> int \<Rightarrow> bool" where
  "EXISTS_user db u a =
     (\<exists>usr \<in> set (user_tbl db). usr_idUser usr = u \<and> usr_idAccount usr = a \<and> \<not> usr_deleted usr)"

text \<open>
  The six \<open>IF ... THROW\<close> blocks at the head of the procedure, in the order of the source.
  The first condition that holds ends the call.
\<close>

definition validations :: "database \<Rightarrow> sp_args \<Rightarrow> sql_error + sp_params" where
  "validations db args =
     (case arg_idAccount args of
        None \<Rightarrow> Inl (THROW_51000 ''idAccountRequired'')
      | Some a \<Rightarrow>
     (case arg_idUser args of
        None \<Rightarrow> Inl (THROW_51000 ''idUserRequired'')
      | Some u \<Rightarrow>
     (case map_option bind_NVARCHAR_255 (arg_title args) of
        None \<Rightarrow> Inl (THROW_51000 ''titleRequired'')
      | Some t \<Rightarrow>
     if LTRIM (RTRIM t) = [] then Inl (THROW_51000 ''titleRequired'')
     else
     (case arg_content args of
        None \<Rightarrow> Inl (THROW_51000 ''contentRequired'')
      | Some c \<Rightarrow>
     if LTRIM (RTRIM c) = [] then Inl (THROW_51000 ''contentRequired'')
     else if LEN t > 255 then Inl (THROW_51000 ''titleExceedsMaxLength'')
     else if \<not> EXISTS_user db u a then Inl (THROW_51000 ''userDoesNotBelongToAccount'')
     else Inr \<lparr>p_idAccount = a, p_idUser = u, p_title = t, p_content = c\<rparr>))))"

text \<open>The row of the \<open>VALUES\<close> clause; \<open>idNote\<close> is assigned by the statement.\<close>

definition new_row :: "nat \<Rightarrow> sp_params \<Rightarrow> note_row" where
  "new_row currentDateTime p =
     \<lparr>nt_idNote = 0, nt_idAccount = p_idAccount p, nt_idUser = p_idUser p,
      nt_title = p_title p, nt_content = p_content p,
      nt_dateCreated = currentDateTime, nt_dateModified = currentDateTime,
      nt_deleted = False\<rparr>"

text \<open>
  The procedure. \<open>utcnow\<close> is what \<open>GETUTCDATE()\<close> returns during the call. The result is the
  error raised or the \<open>idNote\<close> selected, with the database after the call.
\<close>

definition spNoteCreate :: "nat \<Rightarrow> database \<Rightarrow> sp_args \<Rightarrow> (sql_error + int) \<times> database" where
  "spNoteCreate utcnow db args =
     (case validations db args of
        Inl e \<Rightarrow> (Inl e, db)
      | Inr p \<Rightarrow>
          (let currentDateTime = utcnow in
           case INSERT_note db (new_row currentDateTime p) of
             (Inr idNote, db') \<Rightarrow> (Inr idNote, db')
           | (Inl e, db') \<Rightarrow> (Inl e, ROLLBACK_TRAN db db')))"

section \<open>Service adapter\<close>

text \<open>\<open>NoteCreateRequest\<close> and \<open>NoteCreateResponse\<close> of the service module.\<close>

record NoteCreateRequest =
  req_idAccount :: int
  req_idUser :: int
  req_title :: string
  req_content :: string

record NoteCreateResponse =
  res_idNote :: int

text \<open>
  \<open>dbRequest('[functional].[spNoteCreate]', params, ExpectedReturn.Single)\<close>: every entry of
  \<open>params\<close> becomes an input of the request, the procedure is executed, and the first record
  of the result set is returned. A number outside the range of \<open>INTEGER\<close> cannot be converted
  to the procedure's parameter: the engine raises a conversion error (its number is not
  51000) and the procedure body does not run.
\<close>

definition in_INTEGER :: "int \<Rightarrow> bool" where
  "in_INTEGER n = (- 2147483648 \<le> n \<and> n \<le> 2147483647)"

definition request_inputs :: "NoteCreateRequest \<Rightarrow> sp_args" where
  "request_inputs params =
     \<lparr>arg_idAccount = Some (req_idAccount params), arg_idUser = Some (req_idUser params),
      arg_title = Some (req_title params), arg_content = Some (req_content params)\<rparr>"

definition dbRequest :: "nat \<Rightarrow> database \<Rightarrow> NoteCreateRequest \<Rightarrow> (sql_error + NoteCreateResponse) \<times> database" where
  "dbRequest utcnow db params =
     (if \<not> in_INTEGER (req_idAccount params) \<or> \<not> in_INTEGER (req_idUser params) then
        (Inl (SqlError 8114 ''Error converting data type bigint to int.''), db)
      else
        case spNoteCreate utcnow db (request_inputs params) of
          (Inl e, db') \<Rightarrow> (Inl e, db')
        | (Inr idNote, db') \<Rightarrow> (Inr \<lparr>res_idNote = idNote\<rparr>, db'))"

definition noteCreate :: "nat \<Rightarrow> database \<Rightarrow> NoteCreateRequest \<Rightarrow> (sql_error + NoteCreateResponse) \<times> database" where
  "noteCreate utcnow db params = (let result = dbRequest utcnow db params in result)"

section \<open>Request bodies and their schema\<close>

text \<open>
  A JavaScript value as a request body can hold it. A Number is an integer (\<open>JInt\<close>), or a
  value that \<open>Number.isInteger\<close> rejects (\<open>JNonInt\<close>, a fraction or an infinity, with the
  flag telling whether it is greater than 0), or \<open>NaN\<close>. \<open>JOther\<close> stands for arrays.
\<close>

datatype jsval =
    JUndefined
  | JNull
  | JBool bool
  | JInt int
  | JNonInt bool
  | JNaN
  | JString string
  | JOther
  | JObject "(string \<times> jsval) list"

text \<open>An issue of a failed parse: its code and the path of the field it is about.\<close>

datatype zod_issue = ZodIssue (issue_code: string) (issue_path: "string list")

text \<open>\<open>z.number().int().positive()\<close> at key \<open>k\<close>\<close>

definition z_number_int_positive :: "string \<Rightarrow> jsval \<Rightarrow> zod_issue list + int" where
  "z_number_int_positive k v =
     (case v of
        JInt n \<Rightarrow> if n > 0 then Inr n else Inl [ZodIssue ''too_small'' [k]]
      | JNonInt pos \<Rightarrow>
          Inl (ZodIssue ''invalid_type'' [k] # (if pos then [] else [ZodIssue ''too_small'' [k]]))
      | _ \<Rightarrow> Inl [ZodIssue ''invalid_type'' [k]])"

text \<open>\<open>z.string().min(lo)\<close> with an optional \<open>.max(hi)\<close> at key \<open>k\<close>\<close>

definition z_string_min_max :: "nat \<Rightarrow> nat option \<Rightarrow> string \<Rightarrow> jsval \<Rightarrow> zod_issue list + string" where
  "z_string_min_max lo hi k v =
     (case v of
        JString s \<Rightarrow>
          (let issues =
                 (if length s < lo then [ZodIssue ''too_small'' [k]] else []) @
                 (case hi of None \<Rightarrow> []
                  | Some h \<Rightarrow> if length s > h then [ZodIssue ''too_big'' [k]] else [])
           in if issues = [] then Inr s else Inl issues)
      | _ \<Rightarrow> Inl [ZodIssue ''invalid_type'' [k]])"

fun issues_of :: "zod_issue list + 'a \<Rightarrow> zod_issue list" where
  "issues_of (Inl is) = is"
| "issues_of (Inr _) = []"

text \<open>Reading a key of an object; an absent key reads as \<open>undefined\<close>.\<close>

definition get_key :: "(string \<times> jsval) list \<Rightarrow> string \<Rightarrow> jsval" where
  "get_key kvs k = (case map_of kvs k of None \<Rightarrow> JUndefined | Some v \<Rightarrow> v)"

text \<open>
  \<open>bodySchema.parse(req.body)\<close> for the schema of \<open>postHandler\<close>: every field is checked and
  the issues of all fields are collected in the order of the schema; unknown keys are dropped.
\<close>

definition bodySchema_parse :: "jsval \<Rightarrow> zod_issue list + NoteCreateRequest" where
  "bodySchema_parse body =
     (case body of
        JObject kvs \<Rightarrow>
          (let idAccount = z_number_int_positive ''idAccount'' (get_key kvs ''idAccount'');
               idUser = z_number_int_positive ''idUser'' (get_key kvs ''idUser'');
               title = z_string_min_max 1 (Some 255) ''title'' (get_key kvs ''title'');
               content = z_string_min_max 1 None ''content'' (get_key kvs ''content'')
           in case (idAccount, idUser, title, content) of
                (Inr a, Inr u, Inr t, Inr c) \<Rightarrow>
                  Inr \<lparr>req_idAccount = a, req_idUser = u, req_title = t, req_content = c\<rparr>
              | _ \<Rightarrow> Inl (issues_of idAccount @ issues_of idUser @ issues_of title @ issues_of content))
      | _ \<Rightarrow> Inl [ZodIssue ''invalid_type'' []])"

section \<open>Response envelopes\<close>

record metadata =
  page :: "nat option"
  pageSize :: "nat option"
  total :: "nat option"
  timestamp :: string

record error_body =
  code :: string
  message :: string
  details :: "zod_issue list option"

datatype response_body =
    SuccessResponse NoteCreateResponse metadata
  | ErrorResponse error_body string

text \<open>
  \<open>successResponse(data)\<close>: no metadata is passed, so the metadata object holds the
  timestamp only. \<open>isoNow\<close> is \<open>new Date().toISOString()\<close> at the time of the call.
\<close>

definition successResponse :: "string \<Rightarrow> NoteCreateResponse \<Rightarrow> response_body" where
  "successResponse isoNow data =
     SuccessResponse data \<lparr>page = None, pageSize = None, total = None, timestamp = isoNow\<rparr>"

definition errorResponse :: "string \<Rightarrow> string \<Rightarrow> string \<Rightarrow> zod_issue list option \<Rightarrow> response_body" where
  "errorResponse isoNow msg cd dt = ErrorResponse \<lparr>code = cd, message = msg, details = dt\<rparr> isoNow"

section \<open>Controller\<close>

text \<open>
  What \<open>postHandler\<close> does with the request: it sends a response with a status, or it hands
  the error to \<open>next\<close>.
\<close>

datatype outcome = Respond nat response_body | Next sql_error

definition postHandler :: "string \<Rightarrow> nat \<Rightarrow> database \<Rightarrow> jsval \<Rightarrow> outcome \<times> database" where
  "postHandler isoNow utcnow db body =
     (case bodySchema_parse body of
        Inl errors \<Rightarrow>
          (Respond 400 (errorResponse isoNow ''Validation failed'' ''VALIDATION_ERROR'' (Some errors)), db)
      | Inr validated \<Rightarrow>
          (case noteCreate utcnow db
                  \<lparr>req_idAccount = req_idAccount validated, req_idUser = req_idUser validated,
                   req_title = req_title validated, req_content = req_content validated\<rparr> of
             (Inr data, db') \<Rightarrow> (Respond 201 (successResponse isoNow data), db')
           | (Inl error, db') \<Rightarrow>
               if err_number error = 51000 then
                 (Respond 400 (errorResponse isoNow (err_message error) ''BUSINESS_RULE_ERROR'' None), db')
               else (Next error, db')))"

section \<open>The structural contract of a request\<close>

text \<open>
  The contract of the controller as the specification words it: the account and the user
  identifier are positive integers, the title is a string of length 1 to 255, the content
  is a string of length at least 1. \<open>violated_paths\<close> lists the fields of a body that break
  it, in the order of the contract; a body that is no object breaks it as a whole (the
  empty path).
\<close>

definition positive_integer :: "jsval \<Rightarrow> bool" where
  "positive_integer v = (case v of JInt n \<Rightarrow> 0 < n | _ \<Rightarrow> False)"

definition string_of_length :: "nat \<Rightarrow> nat option \<Rightarrow> jsval \<Rightarrow> bool" where
  "string_of_length lo hi v =
     (case v of
        JString s \<Rightarrow> lo \<le> length s \<and> (case hi of None \<Rightarrow> True | Some h \<Rightarrow> length s \<le> h)
      | _ \<Rightarrow> False)"

definition violated_paths :: "jsval \<Rightarrow> string list list" where
  "violated_paths body =
     (case body of
        JObject kvs \<Rightarrow>
          (if positive_integer (get_key kvs ''idAccount'') then [] else [[''idAccount'']]) @
          (if positive_integer (get_key kvs ''idUser'') then [] else [[''idUser'']]) @
          (if string_of_length 1 (Some 255) (get_key kvs ''title'') then [] else [[''title'']]) @
          (if string_of_length 1 None (get_key kvs ''content'') then [] else [[''content'']])
      | _ \<Rightarrow> [[]])"

definition structurally_valid :: "jsval \<Rightarrow> bool" where
  "structurally_valid body = (violated_paths body = [])"

section \<open>Sequences of calls and reachable databases\<close>



text \<open>
  The databases the system can be in: the note table starts empty and changes through
  \<open>spNoteCreate\<close> only; the account and user tables are maintained elsewhere and may change
  between calls.
\<close>

inductive reachable :: "database \<Rightarrow> bool" where
  initial: "note_tbl db = [] \<Longrightarrow> reachable db"
| create: "reachable db \<Longrightarrow> reachable (snd (spNoteCreate utcnow db args))"
| elsewhere: "reachable db \<Longrightarrow> reachable (db\<lparr>account_tbl := accounts, user_tbl := users\<rparr>)"

section \<open>Scenarios\<close>

text \<open>
  Accounts 1 and 2; user 5 is active in account 1, user 6 is soft-deleted in account 1,
  user 7 is active in account 2; no note yet.
\<close>

definition scenario_db :: database where
  "scenario_db =
     \<lparr>account_tbl = [1, 2],
      user_tbl = [\<lparr>usr_idUser = 5, usr_idAccount = 1, usr_deleted = False\<rparr>,
                  \<lparr>usr_idUser = 6, usr_idAccount = 1, usr_deleted = True\<rparr>,
                  \<lparr>usr_idUser = 7, usr_idAccount = 2, usr_deleted = False\<rparr>],
      note_tbl = [], note_identity = 0\<rparr>"

text \<open>The same database once the identity column has handed out its last \<open>INTEGER\<close>.\<close>

definition exhausted_db :: database where
  "exhausted_db = scenario_db\<lparr>note_identity := 2147483647\<rparr>"


definition call_args :: "int \<Rightarrow> int \<Rightarrow> string \<Rightarrow> string \<Rightarrow> sp_args" where
  "call_args a u t c =
     \<lparr>arg_idAccount = Some a, arg_idUser = Some u, arg_title = Some t, arg_content = Some c\<rparr>"

definition request_body :: "jsval \<Rightarrow> jsval \<Rightarrow> jsval \<Rightarrow> jsval \<Rightarrow> jsval" where
  "request_body a u t c =
     JObject [(''idAccount'', a), (''idUser'', u), (''title'', t), (''content'', c)]"

section \<open>Facts about the checks and the INSERT\<close>

lemma length_RTRIM_le: "length (RTRIM s) \<le> length s"
  unfolding RTRIM_def by (metis length_dropWhile_le length_rev)

lemma LEN_bound: "LEN (bind_NVARCHAR_255 s) \<le> 255"
proof -
  have "LEN (bind_NVARCHAR_255 s) \<le> length (take 255 s)"
    unfolding LEN_def bind_NVARCHAR_255_def by (rule length_RTRIM_le)
  then show ?thesis by simp
qed

text \<open>The condition \<open>LEN(@title) > 255\<close> is false for every bound title.\<close>

lemma LEN_check_dead: "\<not> 255 < LEN (bind_NVARCHAR_255 s)"
  using LEN_bound [of s] by simp

text \<open>The calls that pass the six checks, in terms of the arguments and the user table.\<close>

lemma validations_Inr_iff:
  "validations db args = Inr p \<longleftrightarrow>
     (\<exists>a u t c. arg_idAccount args = Some a \<and> arg_idUser args = Some u \<and>
        arg_title args = Some t \<and> LTRIM (RTRIM (bind_NVARCHAR_255 t)) \<noteq> [] \<and>
        arg_content args = Some c \<and> LTRIM (RTRIM c) \<noteq> [] \<and>
        EXISTS_user db u a \<and>
        p = \<lparr>p_idAccount = a, p_idUser = u, p_title = bind_NVARCHAR_255 t, p_content = c\<rparr>)"
  by (auto simp: validations_def LEN_check_dead split: option.splits)

lemma validations_user_fk:
  "validations db args = Inr p \<Longrightarrow> p_idUser p \<in> usr_idUser ` set (user_tbl db)"
  by (auto simp: validations_Inr_iff EXISTS_user_def)

lemma validations_title_fits:
  "validations db args = Inr p \<Longrightarrow> length (p_title p) \<le> 255"
  by (auto simp: validations_Inr_iff bind_NVARCHAR_255_def)

lemma validations_number: "validations db args = Inl e \<Longrightarrow> err_number e = 51000"
  by (auto simp: validations_def THROW_51000_def split: option.splits if_splits)

lemma INSERT_note_number: "INSERT_note db row = (Inl e, db') \<Longrightarrow> err_number e \<noteq> 51000"
  by (auto simp: INSERT_note_def Let_def split: if_splits)

lemma INSERT_note_failure_rows:
  "INSERT_note db row = (Inl e, db') \<Longrightarrow>
     note_tbl db' = note_tbl db \<and> user_tbl db' = user_tbl db \<and> account_tbl db' = account_tbl db"
  by (auto simp: INSERT_note_def Let_def split: if_splits)

text \<open>Scenario 1 of the specification passes the six checks.\<close>

lemma groceries_valid:
  "validations scenario_db (call_args 1 5 ''Groceries'' ''Milk, eggs'') =
     Inr \<lparr>p_idAccount = 1, p_idUser = 5, p_title = ''Groceries'', p_content = ''Milk, eggs''\<rparr>"
  by (simp add: validations_def scenario_db_def call_args_def bind_NVARCHAR_255_def
        LTRIM_def RTRIM_def LEN_def EXISTS_user_def)

lemma groceries_valid_exhausted:
  "validations exhausted_db (call_args 1 5 ''Groceries'' ''Milk, eggs'') =
     Inr \<lparr>p_idAccount = 1, p_idUser = 5, p_title = ''Groceries'', p_content = ''Milk, eggs''\<rparr>"
  by (simp add: validations_def exhausted_db_def scenario_db_def call_args_def
        bind_NVARCHAR_255_def LTRIM_def RTRIM_def LEN_def EXISTS_user_def)

lemma groceries_insert_exhausted:
  "INSERT_note exhausted_db
     (new_row 1000 \<lparr>p_idAccount = 1, p_idUser = 5, p_title = ''Groceries'', p_content = ''Milk, eggs''\<rparr>) =
     (Inl (SqlError 8115 ''Arithmetic overflow error converting IDENTITY to data type int.''),
      exhausted_db)"
  by (simp add: INSERT_note_def new_row_def exhausted_db_def)

lemma blank_title_rejected:
  "validations scenario_db (call_args 1 5 [] ''x'') = Inl (THROW_51000 ''titleRequired'')"
  by (simp add: validations_def call_args_def bind_NVARCHAR_255_def LTRIM_def RTRIM_def)

lemma groceries_not_blank:
  "LTRIM (RTRIM (bind_NVARCHAR_255 ''Groceries'')) \<noteq> []" "LTRIM (RTRIM ''Milk, eggs'') \<noteq> []"
  by (simp_all add: LTRIM_def RTRIM_def bind_NVARCHAR_255_def)

text \<open>A title of 256 characters is bound to its first 255.\<close>

lemma long_title_bound: "bind_NVARCHAR_255 (replicate 256 (CHR ''a'')) = replicate 255 (CHR ''a'')"
  by (simp add: bind_NVARCHAR_255_def)

lemma long_title_not_blank: "LTRIM (RTRIM (replicate 255 (CHR ''a''))) \<noteq> []"
  by (simp add: LTRIM_def RTRIM_def)

lemma groceries_first:
  "spNoteCreate 1000 scenario_db (call_args 1 5 ''Groceries'' ''Milk, eggs'') =
     (Inr 1,
      scenario_db\<lparr>note_tbl :=
          [\<lparr>nt_idNote = 1, nt_idAccount = 1, nt_idUser = 5, nt_title = ''Groceries'',
            nt_content = ''Milk, eggs'', nt_dateCreated = 1000, nt_dateModified = 1000,
            nt_deleted = False\<rparr>],
        note_identity := 1\<rparr>)"
proof -
  have ins: "INSERT_note scenario_db
       (new_row 1000 \<lparr>p_idAccount = 1, p_idUser = 5, p_title = ''Groceries'', p_content = ''Milk, eggs''\<rparr>) =
     (Inr 1,
      scenario_db\<lparr>note_tbl :=
          [\<lparr>nt_idNote = 1, nt_idAccount = 1, nt_idUser = 5, nt_title = ''Groceries'',
            nt_content = ''Milk, eggs'', nt_dateCreated = 1000, nt_dateModified = 1000,
            nt_deleted = False\<rparr>],
        note_identity := 1\<rparr>)"
    by (simp add: INSERT_note_def new_row_def scenario_db_def)
  show ?thesis
    by (simp add: spNoteCreate_def groceries_valid ins)
qed



lemma spNoteCreate_failure_rows:
  "spNoteCreate utcnow db args = (Inl e, db') \<Longrightarrow> note_tbl db' = note_tbl db"
  by (auto simp: spNoteCreate_def ROLLBACK_TRAN_def split: sum.splits prod.splits
        dest: INSERT_note_failure_rows)



text \<open>A successful call appends one row, with the returned identifier and the clock reading.\<close>

lemma spNoteCreate_success_row:
  "spNoteCreate utcnow db args = (Inr i, db') \<Longrightarrow>
     \<exists>n. note_tbl db' = note_tbl db @ [n] \<and> nt_idNote n = i \<and>
         nt_dateCreated n = utcnow \<and> nt_dateModified n = utcnow \<and> \<not> nt_deleted n"
  by (auto simp: spNoteCreate_def INSERT_note_def new_row_def Let_def
        split: sum.splits prod.splits if_splits)

lemma long_title_valid:
  "validations scenario_db (call_args 1 5 (replicate 256 (CHR ''a'')) ''x'') =
     Inr \<lparr>p_idAccount = 1, p_idUser = 5, p_title = replicate 255 (CHR ''a''), p_content = ''x''\<rparr>"
  by (simp add: validations_def call_args_def long_title_bound long_title_not_blank
        LEN_def RTRIM_def LTRIM_def EXISTS_user_def scenario_db_def)

lemma long_title_insert:
  "INSERT_note scenario_db
       (new_row 1000 \<lparr>p_idAccount = 1, p_idUser = 5, p_title = replicate 255 (CHR ''a''), p_content = ''x''\<rparr>) =
     (Inr 1,
      scenario_db\<lparr>note_tbl :=
          [\<lparr>nt_idNote = 1, nt_idAccount = 1, nt_idUser = 5, nt_title = replicate 255 (CHR ''a''),
            nt_content = ''x'', nt_dateCreated = 1000, nt_dateModified = 1000,
            nt_deleted = False\<rparr>],
        note_identity := 1\<rparr>)"
  by (simp add: INSERT_note_def new_row_def scenario_db_def)








section \<open>Successful creation\<close>

text \<open>
  Claim C1, as the code has it. A call that passes the six checks, names an account that
  has a row in the account table and finds the identity counter below the largest
  \<open>INTEGER\<close>, inserts exactly one row: the note table grows by one row at its end, that row
  carries the arguments (the title as bound), its \<open>dateCreated\<close> and \<open>dateModified\<close> are both
  the one clock reading of the call, its \<open>deleted\<close> flag is false, its \<open>idNote\<close> is the next
  identity value, and that value is what the call returns.
\<close>

theorem spNoteCreate_inserts_one_row:
  assumes "validations db args = Inr p"
      and "p_idAccount p \<in> set (account_tbl db)"
      and "note_identity db < 2147483647"
  shows "spNoteCreate utcnow db args =
           (Inr (note_identity db + 1),
            db\<lparr>note_tbl := note_tbl db @
                  [\<lparr>nt_idNote = note_identity db + 1, nt_idAccount = p_idAccount p,
                    nt_idUser = p_idUser p, nt_title = p_title p, nt_content = p_content p,
                    nt_dateCreated = utcnow, nt_dateModified = utcnow, nt_deleted = False\<rparr>],
               note_identity := note_identity db + 1\<rparr>)"
  using assms validations_user_fk [OF assms(1)] validations_title_fits [OF assms(1)]
  by (simp add: spNoteCreate_def INSERT_note_def new_row_def Let_def)

text \<open>Scenario 1: the first note of the database gets identifier 1.\<close>

theorem spNoteCreate_inserts_one_row_witness:
  "spNoteCreate 1000 scenario_db (call_args 1 5 ''Groceries'' ''Milk, eggs'') =
     (Inr 1,
      scenario_db\<lparr>note_tbl :=
          [\<lparr>nt_idNote = 1, nt_idAccount = 1, nt_idUser = 5, nt_title = ''Groceries'',
            nt_content = ''Milk, eggs'', nt_dateCreated = 1000, nt_dateModified = 1000,
            nt_deleted = False\<rparr>],
        note_identity := 1\<rparr>)"
proof -
  have a: "p_idAccount \<lparr>p_idAccount = 1, p_idUser = 5, p_title = ''Groceries'', p_content = ''Milk, eggs''\<rparr>
             \<in> set (account_tbl scenario_db)"
    by (simp add: scenario_db_def)
  have i: "note_identity scenario_db < 2147483647"
    by (simp add: scenario_db_def)
  show ?thesis
    using spNoteCreate_inserts_one_row [OF groceries_valid a i, of 1000]
    by (simp add: scenario_db_def)
qed

text \<open>
  Claim C1 as stated fails: with the identity column exhausted, scenario 1 passes the six
  checks, the INSERT raises the overflow error, and the call returns that error with the
  database as it was.
\<close>

theorem spNoteCreate_identity_exhausted_counterexample:
  "validations exhausted_db (call_args 1 5 ''Groceries'' ''Milk, eggs'') =
     Inr \<lparr>p_idAccount = 1, p_idUser = 5, p_title = ''Groceries'', p_content = ''Milk, eggs''\<rparr>
   \<and> spNoteCreate 1000 exhausted_db (call_args 1 5 ''Groceries'' ''Milk, eggs'') =
     (Inl (SqlError 8115 ''Arithmetic overflow error converting IDENTITY to data type int.''),
      exhausted_db)"
  by (simp add: spNoteCreate_def groceries_valid_exhausted groceries_insert_exhausted
        ROLLBACK_TRAN_def)

section \<open>Failed creation\<close>

text \<open>
  A call that one of the checks rejects returns that check's error and leaves the database
  exactly as it was. A call that passes the checks and whose INSERT fails returns the error
  of the INSERT itself, after the rollback, and the note table is the one from before the
  call. So whenever the call returns an error, the note table, the user table and the
  account table are unchanged.
\<close>

lemma spNoteCreate_failure_inserts_nothing:
  "(validations db args = Inl e \<longrightarrow> spNoteCreate utcnow db args = (Inl e, db)) \<and>
   (validations db args = Inr p \<and> INSERT_note db (new_row utcnow p) = (Inl e, db') \<longrightarrow>
      spNoteCreate utcnow db args = (Inl e, ROLLBACK_TRAN db db') \<and>
      note_tbl (ROLLBACK_TRAN db db') = note_tbl db) \<and>
   (fst (spNoteCreate utcnow db args) = Inl e \<longrightarrow>
      note_tbl (snd (spNoteCreate utcnow db args)) = note_tbl db \<and>
      user_tbl (snd (spNoteCreate utcnow db args)) = user_tbl db \<and>
      account_tbl (snd (spNoteCreate utcnow db args)) = account_tbl db)"
  by (auto simp: spNoteCreate_def ROLLBACK_TRAN_def split: sum.splits prod.splits
        dest: INSERT_note_failure_rows)

text \<open>
  Claim C2 at an input of the fifth invalid class, a title of 256 characters with every
  other argument valid: the note table is empty before the call, the call returns an
  identifier and no error, and the note table holds one row after it. The call has an
  effect on the store where the claim says that zero rows are inserted.
\<close>

theorem spNoteCreate_long_title_inserts_row:
  "255 < length (replicate 256 (CHR ''a''))
   \<and> length (note_tbl scenario_db) = 0
   \<and> fst (spNoteCreate 1000 scenario_db (call_args 1 5 (replicate 256 (CHR ''a'')) ''x'')) = Inr 1
   \<and> length (note_tbl (snd (spNoteCreate 1000 scenario_db
                (call_args 1 5 (replicate 256 (CHR ''a'')) ''x'')))) = 1"
  by (simp add: spNoteCreate_def long_title_valid long_title_insert) (simp add: scenario_db_def)

section \<open>The order of the checks and the title length\<close>

text \<open>
  The checks run in the order of the source and the first one that holds decides the error.
  The fifth condition, \<open>LEN(@title) > 255\<close>, reads the bound parameter, which never has
  more than 255 characters: no call raises \<open>titleExceedsMaxLength\<close>.
\<close>

lemma validations_order:
  "validations db args =
     (if arg_idAccount args = None then Inl (THROW_51000 ''idAccountRequired'')
      else if arg_idUser args = None then Inl (THROW_51000 ''idUserRequired'')
      else if arg_title args = None \<or> LTRIM (RTRIM (bind_NVARCHAR_255 (the (arg_title args)))) = []
        then Inl (THROW_51000 ''titleRequired'')
      else if arg_content args = None \<or> LTRIM (RTRIM (the (arg_content args))) = []
        then Inl (THROW_51000 ''contentRequired'')
      else if \<not> EXISTS_user db (the (arg_idUser args)) (the (arg_idAccount args))
        then Inl (THROW_51000 ''userDoesNotBelongToAccount'')
      else Inr \<lparr>p_idAccount = the (arg_idAccount args), p_idUser = the (arg_idUser args),
                p_title = bind_NVARCHAR_255 (the (arg_title args)),
                p_content = the (arg_content args)\<rparr>)"
  by (auto simp: validations_def LEN_check_dead split: option.splits)

lemma spNoteCreate_never_titleExceedsMaxLength:
  "fst (spNoteCreate utcnow db args) \<noteq> Inl (THROW_51000 ''titleExceedsMaxLength'')"
proof
  assume h: "fst (spNoteCreate utcnow db args) = Inl (THROW_51000 ''titleExceedsMaxLength'')"
  show False
  proof (cases "validations db args")
    case (Inl e)
    with h have "validations db args = Inl (THROW_51000 ''titleExceedsMaxLength'')"
      by (simp add: spNoteCreate_def)
    then show False
      by (auto simp: validations_def THROW_51000_def LEN_check_dead split: option.splits if_splits)
  next
    case (Inr p)
    with h obtain db' where
      "INSERT_note db (new_row utcnow p) = (Inl (THROW_51000 ''titleExceedsMaxLength''), db')"
      by (auto simp: spNoteCreate_def split: prod.splits sum.splits)
    from INSERT_note_number [OF this] show False by (simp add: THROW_51000_def)
  qed
qed

text \<open>
  Claim C3 at a title of 256 characters and a user that has no row: of the six checks of
  the claim the fifth (title longer than 255 characters) is the first one violated, and the
  call raises the error of the sixth, \<open>userDoesNotBelongToAccount\<close>.
\<close>

theorem spNoteCreate_long_title_unknown_user:
  "spNoteCreate 1000 scenario_db (call_args 1 99 (replicate 256 (CHR ''a'')) ''x'') =
     (Inl (THROW_51000 ''userDoesNotBelongToAccount''), scenario_db)"
  by (simp add: spNoteCreate_def validations_def call_args_def long_title_bound long_title_not_blank
        LEN_def RTRIM_def LTRIM_def EXISTS_user_def scenario_db_def)

text \<open>
  Claim C5 at a title of 256 characters, with every other argument valid: the call does
  not raise \<open>titleExceedsMaxLength\<close>; it succeeds and stores the first 255 characters.
\<close>

theorem spNoteCreate_long_title_accepted:
  "spNoteCreate 1000 scenario_db (call_args 1 5 (replicate 256 (CHR ''a'')) ''x'') =
     (Inr 1,
      scenario_db\<lparr>note_tbl :=
          [\<lparr>nt_idNote = 1, nt_idAccount = 1, nt_idUser = 5, nt_title = replicate 255 (CHR ''a''),
            nt_content = ''x'', nt_dateCreated = 1000, nt_dateModified = 1000,
            nt_deleted = False\<rparr>],
        note_identity := 1\<rparr>)"
proof -
  have v: "validations scenario_db (call_args 1 5 (replicate 256 (CHR ''a'')) ''x'') =
     Inr \<lparr>p_idAccount = 1, p_idUser = 5, p_title = replicate 255 (CHR ''a''), p_content = ''x''\<rparr>"
    by (simp add: validations_def call_args_def long_title_bound long_title_not_blank
        LEN_def RTRIM_def LTRIM_def EXISTS_user_def scenario_db_def)
  have ins: "INSERT_note scenario_db
       (new_row 1000 \<lparr>p_idAccount = 1, p_idUser = 5, p_title = replicate 255 (CHR ''a''), p_content = ''x''\<rparr>) =
     (Inr 1,
      scenario_db\<lparr>note_tbl :=
          [\<lparr>nt_idNote = 1, nt_idAccount = 1, nt_idUser = 5, nt_title = replicate 255 (CHR ''a''),
            nt_content = ''x'', nt_dateCreated = 1000, nt_dateModified = 1000,
            nt_deleted = False\<rparr>],
        note_identity := 1\<rparr>)"
    by (simp add: INSERT_note_def new_row_def scenario_db_def)
  show ?thesis
    by (simp add: spNoteCreate_def v ins)
qed

section \<open>The user must belong to the account\<close>

text \<open>
  Claim C4, as the code has it. For a call whose identifiers are not \<open>NULL\<close> and whose
  title (as bound) and content are not blank, the call raises
  \<open>userDoesNotBelongToAccount\<close> exactly when the user table has no row that is not deleted
  and carries both the user identifier and the account identifier of the call. So it
  raises it, and leaves the database as it was, when every row of that user is soft-deleted
  and when every row of that user is in another account.
\<close>

theorem userDoesNotBelongToAccount_iff:
  assumes "arg_idAccount args = Some a" and "arg_idUser args = Some u"
      and "arg_title args = Some t" and "LTRIM (RTRIM (bind_NVARCHAR_255 t)) \<noteq> []"
      and "arg_content args = Some c" and "LTRIM (RTRIM c) \<noteq> []"
  shows "(fst (spNoteCreate utcnow db args) = Inl (THROW_51000 ''userDoesNotBelongToAccount'') \<longleftrightarrow>
            \<not> (\<exists>usr \<in> set (user_tbl db). usr_idUser usr = u \<and> usr_idAccount usr = a \<and> \<not> usr_deleted usr))
       \<and> ((\<forall>usr \<in> set (user_tbl db). usr_idUser usr = u \<longrightarrow> usr_deleted usr) \<longrightarrow>
            spNoteCreate utcnow db args = (Inl (THROW_51000 ''userDoesNotBelongToAccount''), db))
       \<and> ((\<forall>usr \<in> set (user_tbl db). usr_idUser usr = u \<longrightarrow> usr_idAccount usr \<noteq> a) \<longrightarrow>
            spNoteCreate utcnow db args = (Inl (THROW_51000 ''userDoesNotBelongToAccount''), db))"
proof -
  have v: "validations db args =
       (if EXISTS_user db u a
        then Inr \<lparr>p_idAccount = a, p_idUser = u, p_title = bind_NVARCHAR_255 t, p_content = c\<rparr>
        else Inl (THROW_51000 ''userDoesNotBelongToAccount''))"
    using assms by (simp add: validations_def LEN_check_dead)
  have no: "\<not> EXISTS_user db u a \<Longrightarrow>
       spNoteCreate utcnow db args = (Inl (THROW_51000 ''userDoesNotBelongToAccount''), db)"
    by (simp add: spNoteCreate_def v)
  have yes: "EXISTS_user db u a \<Longrightarrow>
       fst (spNoteCreate utcnow db args) \<noteq> Inl (THROW_51000 ''userDoesNotBelongToAccount'')"
    by (auto simp: spNoteCreate_def v THROW_51000_def split: prod.splits sum.splits
          dest: INSERT_note_number)
  have iff: "fst (spNoteCreate utcnow db args) = Inl (THROW_51000 ''userDoesNotBelongToAccount'') \<longleftrightarrow>
            \<not> EXISTS_user db u a"
    using no yes by (cases "EXISTS_user db u a") simp_all
  have del: "(\<forall>usr \<in> set (user_tbl db). usr_idUser usr = u \<longrightarrow> usr_deleted usr) \<Longrightarrow>
       \<not> EXISTS_user db u a"
    by (auto simp: EXISTS_user_def)
  have oth: "(\<forall>usr \<in> set (user_tbl db). usr_idUser usr = u \<longrightarrow> usr_idAccount usr \<noteq> a) \<Longrightarrow>
       \<not> EXISTS_user db u a"
    by (auto simp: EXISTS_user_def)
  show ?thesis
    using iff no del oth unfolding EXISTS_user_def by blast
qed

text \<open>
  In the scenario database: user 6 is soft-deleted in the right account, user 7 belongs to
  account 2 while the call names account 1, and user 5 is active in account 1.
\<close>

theorem userDoesNotBelongToAccount_iff_witness:
  "spNoteCreate 1000 scenario_db (call_args 1 6 ''Groceries'' ''Milk, eggs'') =
     (Inl (THROW_51000 ''userDoesNotBelongToAccount''), scenario_db)
   \<and> spNoteCreate 1000 scenario_db (call_args 1 7 ''Groceries'' ''Milk, eggs'') =
     (Inl (THROW_51000 ''userDoesNotBelongToAccount''), scenario_db)
   \<and> fst (spNoteCreate 1000 scenario_db (call_args 1 5 ''Groceries'' ''Milk, eggs'')) \<noteq>
     Inl (THROW_51000 ''userDoesNotBelongToAccount'')"
proof -
  have deleted: "\<forall>usr \<in> set (user_tbl scenario_db). usr_idUser usr = 6 \<longrightarrow> usr_deleted usr"
    by (simp add: scenario_db_def)
  have other: "\<forall>usr \<in> set (user_tbl scenario_db). usr_idUser usr = 7 \<longrightarrow> usr_idAccount usr \<noteq> 1"
    by (simp add: scenario_db_def)
  have active: "\<exists>usr \<in> set (user_tbl scenario_db).
                  usr_idUser usr = 5 \<and> usr_idAccount usr = 1 \<and> \<not> usr_deleted usr"
    by (simp add: scenario_db_def)
  have six: "spNoteCreate 1000 scenario_db (call_args 1 6 ''Groceries'' ''Milk, eggs'') =
     (Inl (THROW_51000 ''userDoesNotBelongToAccount''), scenario_db)"
    using userDoesNotBelongToAccount_iff
            [of "call_args 1 6 ''Groceries'' ''Milk, eggs''" 1 6 "''Groceries''" "''Milk, eggs''"
                1000 scenario_db]
          groceries_not_blank deleted
    by (simp add: call_args_def)
  have seven: "spNoteCreate 1000 scenario_db (call_args 1 7 ''Groceries'' ''Milk, eggs'') =
     (Inl (THROW_51000 ''userDoesNotBelongToAccount''), scenario_db)"
    using userDoesNotBelongToAccount_iff
            [of "call_args 1 7 ''Groceries'' ''Milk, eggs''" 1 7 "''Groceries''" "''Milk, eggs''"
                1000 scenario_db]
          groceries_not_blank other
    by (simp add: call_args_def)
  have five: "fst (spNoteCreate 1000 scenario_db (call_args 1 5 ''Groceries'' ''Milk, eggs'')) \<noteq>
     Inl (THROW_51000 ''userDoesNotBelongToAccount'')"
    using userDoesNotBelongToAccount_iff
            [of "call_args 1 5 ''Groceries'' ''Milk, eggs''" 1 5 "''Groceries''" "''Milk, eggs''"
                1000 scenario_db]
          groceries_not_blank active
    by (simp add: call_args_def)
  from six seven five show ?thesis by simp
qed

text \<open>
  Claim C4 as stated fails: with an empty title and a user that has no row, no active row
  of the user exists in the account, and the call raises \<open>titleRequired\<close>, the error of the
  earlier check.
\<close>

theorem userDoesNotBelongToAccount_counterexample:
  "\<not> (fst (spNoteCreate 1000 scenario_db (call_args 1 99 [] ''x'')) =
          Inl (THROW_51000 ''userDoesNotBelongToAccount'')
        \<longleftrightarrow> \<not> EXISTS_user scenario_db 99 1)"
  by (simp add: spNoteCreate_def validations_def call_args_def bind_NVARCHAR_255_def
        LTRIM_def RTRIM_def THROW_51000_def EXISTS_user_def scenario_db_def)

section \<open>Identifiers of successive calls\<close>




section \<open>The order of the two dates\<close>

text \<open>
  Claim C8. In every reachable database, every row of the note table has its
  \<open>dateCreated\<close> not after its \<open>dateModified\<close>; and a successful call on such a database
  appends a row whose two dates are both the clock reading of the call.
\<close>

theorem dates_ordered_invariant:
  "reachable db \<Longrightarrow>
     (\<forall>n \<in> set (note_tbl db). nt_dateCreated n \<le> nt_dateModified n) \<and>
     (\<forall>utcnow args i db'. spNoteCreate utcnow db args = (Inr i, db') \<longrightarrow>
        (\<exists>n. note_tbl db' = note_tbl db @ [n] \<and> nt_dateCreated n = utcnow \<and>
             nt_dateModified n = utcnow))"
proof -
  assume r: "reachable db"
  have inv: "\<forall>n \<in> set (note_tbl db). nt_dateCreated n = nt_dateModified n"
    using r
  proof (induction rule: reachable.induct)
    case (initial db)
    then show ?case by simp
  next
    case (create db utcnow args)
    obtain res db' where step: "spNoteCreate utcnow db args = (res, db')"
      by (cases "spNoteCreate utcnow db args")
    show ?case
    proof (cases res)
      case (Inl e)
      with step have "note_tbl db' = note_tbl db"
        using spNoteCreate_failure_rows by fastforce
      with create.IH step show ?thesis by simp
    next
      case (Inr i)
      with step spNoteCreate_success_row obtain n where
        "note_tbl db' = note_tbl db @ [n]" "nt_dateCreated n = utcnow" "nt_dateModified n = utcnow"
        by blast
      with create.IH step show ?thesis by auto
    qed
  next
    case (elsewhere db accounts users)
    then show ?case by simp
  qed
  have dates: "\<forall>n \<in> set (note_tbl db). nt_dateCreated n \<le> nt_dateModified n"
    using inv by simp
  have fresh: "\<forall>utcnow args i db'. spNoteCreate utcnow db args = (Inr i, db') \<longrightarrow>
        (\<exists>n. note_tbl db' = note_tbl db @ [n] \<and> nt_dateCreated n = utcnow \<and>
             nt_dateModified n = utcnow)"
    using spNoteCreate_success_row by blast
  from dates fresh show ?thesis by simp
qed

text \<open>The database after scenario 1 is reachable and holds one row, with equal dates.\<close>

theorem dates_ordered_invariant_witness:
  "reachable (snd (spNoteCreate 1000 scenario_db (call_args 1 5 ''Groceries'' ''Milk, eggs'')))
   \<and> map nt_dateCreated (note_tbl (snd (spNoteCreate 1000 scenario_db
                (call_args 1 5 ''Groceries'' ''Milk, eggs'')))) = [1000]
   \<and> map nt_dateModified (note_tbl (snd (spNoteCreate 1000 scenario_db
                (call_args 1 5 ''Groceries'' ''Milk, eggs'')))) = [1000]
   \<and> (1000 :: nat) \<le> 1000"
proof -
  have start: "reachable scenario_db"
    by (rule reachable.initial) (simp add: scenario_db_def)
  have r: "reachable (snd (spNoteCreate 1000 scenario_db (call_args 1 5 ''Groceries'' ''Milk, eggs'')))"
    by (rule reachable.create [OF start])
  from dates_ordered_invariant [OF r] r show ?thesis
    by (simp add: groceries_first)
qed

section \<open>Facts about blank strings and the schema\<close>

lemma dropWhile_all: "(\<forall>x \<in> set xs. P x) \<Longrightarrow> dropWhile P xs = []"
  by (induction xs) simp_all

lemma dropWhile_twice_Nil:
  "dropWhile P (rev (dropWhile P xs)) = [] \<Longrightarrow> dropWhile P xs = []"
proof (rule ccontr)
  assume a: "dropWhile P (rev (dropWhile P xs)) = []" and ne: "dropWhile P xs \<noteq> []"
  from ne have h: "\<not> P (hd (dropWhile P xs))" by (rule hd_dropWhile)
  from ne have m: "hd (dropWhile P xs) \<in> set (rev (dropWhile P xs))" by simp
  from a have "\<forall>x \<in> set (rev (dropWhile P xs)). P x"
    by (simp only: dropWhile_eq_Nil_conv)
  with m h show False by blast
qed

text \<open>
  \<open>LTRIM(RTRIM(s)) = ''\<close> holds exactly for the strings made of space characters only
  (the empty string among them).
\<close>

lemma blank_iff_spaces: "LTRIM (RTRIM s) = [] \<longleftrightarrow> (\<forall>c \<in> set s. c = CHR '' '')"
proof
  assume "LTRIM (RTRIM s) = []"
  then have "dropWhile (\<lambda>c. c = CHR '' '') (rev s) = []"
    unfolding LTRIM_def RTRIM_def by (rule dropWhile_twice_Nil)
  then have "\<forall>c \<in> set (rev s). c = CHR '' ''"
    by (simp only: dropWhile_eq_Nil_conv)
  then show "\<forall>c \<in> set s. c = CHR '' ''"
    by (simp only: set_rev)
next
  assume "\<forall>c \<in> set s. c = CHR '' ''"
  then have "\<forall>c \<in> set (rev s). c = CHR '' ''"
    by (simp only: set_rev)
  then have "dropWhile (\<lambda>c. c = CHR '' '') (rev s) = []"
    by (rule dropWhile_all)
  then show "LTRIM (RTRIM s) = []"
    by (simp only: LTRIM_def RTRIM_def rev.simps dropWhile.simps)
qed

lemma z_number_int_positive_Inr:
  "z_number_int_positive k v = Inr n \<longleftrightarrow> v = JInt n \<and> 0 < n"
  by (cases v) (auto simp: z_number_int_positive_def)

lemma z_number_int_positive_issues:
  "issue_path ` set (issues_of (z_number_int_positive k v)) =
     (if positive_integer v then {} else {[k]})"
  by (cases v) (auto simp: z_number_int_positive_def positive_integer_def)

lemma z_string_min_max_Inr:
  "z_string_min_max lo hi k v = Inr s \<longleftrightarrow>
     v = JString s \<and> lo \<le> length s \<and> (case hi of None \<Rightarrow> True | Some h \<Rightarrow> length s \<le> h)"
  by (cases v) (auto simp: z_string_min_max_def Let_def split: option.splits if_splits)

lemma z_string_min_max_issues:
  "issue_path ` set (issues_of (z_string_min_max lo hi k v)) =
     (if string_of_length lo hi v then {} else {[k]})"
  by (cases v)
    (auto simp: z_string_min_max_def string_of_length_def Let_def split: option.splits if_splits)

lemma z_number_int_positive_ok:
  "(\<exists>n. z_number_int_positive k v = Inr n) \<longleftrightarrow> positive_integer v"
  by (cases v) (auto simp: z_number_int_positive_def positive_integer_def)

lemma z_string_min_max_ok:
  "(\<exists>s. z_string_min_max lo hi k v = Inr s) \<longleftrightarrow> string_of_length lo hi v"
  by (cases v)
    (auto simp: z_string_min_max_def string_of_length_def Let_def split: option.splits if_splits)

text \<open>The parse of an object body, by the results of its four fields.\<close>

lemma bodySchema_parse_ok:
  assumes "z_number_int_positive ''idAccount'' (get_key kvs ''idAccount'') = Inr a"
      and "z_number_int_positive ''idUser'' (get_key kvs ''idUser'') = Inr u"
      and "z_string_min_max 1 (Some 255) ''title'' (get_key kvs ''title'') = Inr t"
      and "z_string_min_max 1 None ''content'' (get_key kvs ''content'') = Inr c"
  shows "bodySchema_parse (JObject kvs) =
           Inr \<lparr>req_idAccount = a, req_idUser = u, req_title = t, req_content = c\<rparr>"
  unfolding bodySchema_parse_def Let_def using assms by simp

lemma bodySchema_parse_bad:
  assumes "\<not> (positive_integer (get_key kvs ''idAccount'') \<and>
              positive_integer (get_key kvs ''idUser'') \<and>
              string_of_length 1 (Some 255) (get_key kvs ''title'') \<and>
              string_of_length 1 None (get_key kvs ''content''))"
  shows "bodySchema_parse (JObject kvs) =
           Inl (issues_of (z_number_int_positive ''idAccount'' (get_key kvs ''idAccount'')) @
                issues_of (z_number_int_positive ''idUser'' (get_key kvs ''idUser'')) @
                issues_of (z_string_min_max 1 (Some 255) ''title'' (get_key kvs ''title'')) @
                issues_of (z_string_min_max 1 None ''content'' (get_key kvs ''content'')))"
proof -
  let ?A = "z_number_int_positive ''idAccount'' (get_key kvs ''idAccount'')"
  let ?U = "z_number_int_positive ''idUser'' (get_key kvs ''idUser'')"
  let ?T = "z_string_min_max 1 (Some 255) ''title'' (get_key kvs ''title'')"
  let ?C = "z_string_min_max 1 None ''content'' (get_key kvs ''content'')"
  have bad: "\<not> ((\<exists>a. ?A = Inr a) \<and> (\<exists>u. ?U = Inr u) \<and> (\<exists>t. ?T = Inr t) \<and> (\<exists>c. ?C = Inr c))"
    using assms z_number_int_positive_ok z_string_min_max_ok by blast
  have "(case (?A, ?U, ?T, ?C) of
           (Inr a, Inr u, Inr t, Inr c) \<Rightarrow>
             Inr \<lparr>req_idAccount = a, req_idUser = u, req_title = t, req_content = c\<rparr>
         | _ \<Rightarrow> Inl (issues_of ?A @ issues_of ?U @ issues_of ?T @ issues_of ?C)) =
        Inl (issues_of ?A @ issues_of ?U @ issues_of ?T @ issues_of ?C)"
    using bad by (cases ?A; cases ?U; cases ?T; cases ?C) simp_all
  then show ?thesis
    unfolding bodySchema_parse_def Let_def by simp
qed

lemma bodySchema_parse_Inl:
  assumes "bodySchema_parse body = Inl errors"
  shows "errors \<noteq> [] \<and> issue_path ` set errors = set (violated_paths body)"
proof (cases body)
  case (JObject kvs)
  let ?ok = "positive_integer (get_key kvs ''idAccount'') \<and>
              positive_integer (get_key kvs ''idUser'') \<and>
              string_of_length 1 (Some 255) (get_key kvs ''title'') \<and>
              string_of_length 1 None (get_key kvs ''content'')"
  have bad: "\<not> ?ok"
  proof
    assume ?ok
    then obtain a u t c where
      "z_number_int_positive ''idAccount'' (get_key kvs ''idAccount'') = Inr a"
      "z_number_int_positive ''idUser'' (get_key kvs ''idUser'') = Inr u"
      "z_string_min_max 1 (Some 255) ''title'' (get_key kvs ''title'') = Inr t"
      "z_string_min_max 1 None ''content'' (get_key kvs ''content'') = Inr c"
      using z_number_int_positive_ok z_string_min_max_ok by metis
    from bodySchema_parse_ok [OF this] assms JObject show False by simp
  qed
  from bodySchema_parse_bad [OF bad] assms JObject
  have e: "errors =
             issues_of (z_number_int_positive ''idAccount'' (get_key kvs ''idAccount'')) @
             issues_of (z_number_int_positive ''idUser'' (get_key kvs ''idUser'')) @
             issues_of (z_string_min_max 1 (Some 255) ''title'' (get_key kvs ''title'')) @
             issues_of (z_string_min_max 1 None ''content'' (get_key kvs ''content''))"
    by simp
  have paths: "issue_path ` set errors = set (violated_paths body)"
    unfolding e JObject violated_paths_def
    by (simp add: image_Un z_number_int_positive_issues z_string_min_max_issues)
  from bad have "set (violated_paths body) \<noteq> {}"
    unfolding JObject violated_paths_def by auto
  with paths show ?thesis by auto
qed (use assms in \<open>auto simp: bodySchema_parse_def violated_paths_def\<close>)

lemma bodySchema_parse_Inr:
  assumes "bodySchema_parse body = Inr v"
  shows "\<exists>kvs. body = JObject kvs \<and>
        get_key kvs ''idAccount'' = JInt (req_idAccount v) \<and> 0 < req_idAccount v \<and>
        get_key kvs ''idUser'' = JInt (req_idUser v) \<and> 0 < req_idUser v \<and>
        get_key kvs ''title'' = JString (req_title v) \<and>
        1 \<le> length (req_title v) \<and> length (req_title v) \<le> 255 \<and>
        get_key kvs ''content'' = JString (req_content v) \<and> 1 \<le> length (req_content v)"
proof (cases body)
  case (JObject kvs)
  have ok: "positive_integer (get_key kvs ''idAccount'') \<and>
              positive_integer (get_key kvs ''idUser'') \<and>
              string_of_length 1 (Some 255) (get_key kvs ''title'') \<and>
              string_of_length 1 None (get_key kvs ''content'')"
  proof (rule ccontr)
    assume bad: "\<not> ?thesis"
    from bodySchema_parse_bad [OF bad] assms JObject show False by simp
  qed
  then obtain a u t c where r:
      "z_number_int_positive ''idAccount'' (get_key kvs ''idAccount'') = Inr a"
      "z_number_int_positive ''idUser'' (get_key kvs ''idUser'') = Inr u"
      "z_string_min_max 1 (Some 255) ''title'' (get_key kvs ''title'') = Inr t"
      "z_string_min_max 1 None ''content'' (get_key kvs ''content'') = Inr c"
    using z_number_int_positive_ok z_string_min_max_ok by metis
  from bodySchema_parse_ok [OF r] assms JObject
  have v: "v = \<lparr>req_idAccount = a, req_idUser = u, req_title = t, req_content = c\<rparr>"
    by simp
  from r show ?thesis
    unfolding v JObject by (simp add: z_number_int_positive_Inr z_string_min_max_Inr)
qed (use assms in \<open>simp_all add: bodySchema_parse_def\<close>)

lemma structurally_valid_iff: "structurally_valid body \<longleftrightarrow> (\<exists>v. bodySchema_parse body = Inr v)"
proof (cases "bodySchema_parse body")
  case (Inl errors)
  from bodySchema_parse_Inl [OF Inl] have "violated_paths body \<noteq> []" by auto
  with Inl show ?thesis by (simp add: structurally_valid_def)
next
  case (Inr v)
  from bodySchema_parse_Inr [OF Inr] have "structurally_valid body"
    by (auto simp: structurally_valid_def violated_paths_def positive_integer_def
          string_of_length_def)
  with Inr show ?thesis by simp
qed

lemma request_copy:
  "\<lparr>req_idAccount = req_idAccount v, req_idUser = req_idUser v,
    req_title = req_title v, req_content = req_content v\<rparr> = v"
  by (cases v) simp

text \<open>The controller once the body has been parsed.\<close>

lemma postHandler_parsed:
  assumes "bodySchema_parse body = Inr validated"
  shows "postHandler isoNow utcnow db body =
           (case noteCreate utcnow db validated of
              (Inr data, db') \<Rightarrow> (Respond 201 (successResponse isoNow data), db')
            | (Inl error, db') \<Rightarrow>
                if err_number error = 51000 then
                  (Respond 400 (errorResponse isoNow (err_message error) ''BUSINESS_RULE_ERROR'' None), db')
                else (Next error, db'))"
  unfolding postHandler_def request_copy using assms by simp

text \<open>The adapter in range: the result of the procedure, the identifier wrapped in a record.\<close>

lemma noteCreate_in_range:
  assumes "in_INTEGER (req_idAccount params)" and "in_INTEGER (req_idUser params)"
  shows "noteCreate utcnow db params =
           (case spNoteCreate utcnow db (request_inputs params) of
              (Inl e, db') \<Rightarrow> (Inl e, db')
            | (Inr idNote, db') \<Rightarrow> (Inr \<lparr>res_idNote = idNote\<rparr>, db'))"
  unfolding noteCreate_def dbRequest_def Let_def using assms by simp

lemma noteCreate_out_of_range:
  assumes "\<not> (in_INTEGER (req_idAccount params) \<and> in_INTEGER (req_idUser params))"
  shows "noteCreate utcnow db params =
           (Inl (SqlError 8114 ''Error converting data type bigint to int.''), db)"
  unfolding noteCreate_def dbRequest_def Let_def using assms by auto

lemma spNoteCreate_rejected:
  "validations db args = Inl e \<Longrightarrow> spNoteCreate utcnow db args = (Inl e, db)"
  by (simp add: spNoteCreate_def)

lemma spNoteCreate_error_kinds:
  assumes "spNoteCreate utcnow db args = (Inl e, db')"
  shows "validations db args = Inl e \<or> err_number e \<noteq> 51000"
proof (cases "validations db args")
  case (Inl e0)
  with assms show ?thesis by (simp add: spNoteCreate_def)
next
  case (Inr p)
  with assms obtain db1 where "INSERT_note db (new_row utcnow p) = (Inl e, db1)"
    by (auto simp: spNoteCreate_def split: prod.splits sum.splits)
  from INSERT_note_number [OF this] show ?thesis by simp
qed

lemma noteCreate_error_kinds:
  assumes "noteCreate utcnow db params = (Inl e, db')"
  shows "(in_INTEGER (req_idAccount params) \<and> in_INTEGER (req_idUser params) \<and>
          validations db (request_inputs params) = Inl e) \<or> err_number e \<noteq> 51000"
proof (cases "in_INTEGER (req_idAccount params) \<and> in_INTEGER (req_idUser params)")
  case True
  obtain r db1 where sp: "spNoteCreate utcnow db (request_inputs params) = (r, db1)"
    by (cases "spNoteCreate utcnow db (request_inputs params)")
  from True have "noteCreate utcnow db params =
           (case spNoteCreate utcnow db (request_inputs params) of
              (Inl e, db') \<Rightarrow> (Inl e, db')
            | (Inr idNote, db') \<Rightarrow> (Inr \<lparr>res_idNote = idNote\<rparr>, db'))"
    by (simp add: noteCreate_in_range)
  with assms sp have "r = Inl e" by (cases r) simp_all
  with sp spNoteCreate_error_kinds have "validations db (request_inputs params) = Inl e \<or> err_number e \<noteq> 51000"
    by blast
  with True show ?thesis by blast
next
  case False
  from noteCreate_out_of_range [OF False] assms have "e = SqlError 8114 ''Error converting data type bigint to int.''"
    by simp
  then show ?thesis by simp
qed

section \<open>Failures at the controller\<close>

text \<open>
  Claim C6. A body that breaks the structural contract gets status 400 with code
  \<open>VALIDATION_ERROR\<close> and, as details, a non-empty list of issues whose paths are exactly
  the violated fields; the database is not touched. When the body is valid and the
  procedure is called and one of its checks raises an error, the response has status 400,
  code \<open>BUSINESS_RULE_ERROR\<close> and the message of that error. When the body is valid and the
  adapter fails in any other way, the error is handed to \<open>next\<close>.
\<close>

theorem postHandler_failures:
  "(\<not> structurally_valid body \<longrightarrow>
      (\<exists>errors. errors \<noteq> [] \<and> issue_path ` set errors = set (violated_paths body) \<and>
         postHandler isoNow utcnow db body =
           (Respond 400 (ErrorResponse \<lparr>code = ''VALIDATION_ERROR'', message = ''Validation failed'',
                                       details = Some errors\<rparr> isoNow), db))) \<and>
   (bodySchema_parse body = Inr validated \<and>
    in_INTEGER (req_idAccount validated) \<and> in_INTEGER (req_idUser validated) \<and>
    validations db (request_inputs validated) = Inl e \<longrightarrow>
      postHandler isoNow utcnow db body =
        (Respond 400 (ErrorResponse \<lparr>code = ''BUSINESS_RULE_ERROR'', message = err_message e,
                                    details = None\<rparr> isoNow), db)) \<and>
   (bodySchema_parse body = Inr validated \<and>
    noteCreate utcnow db validated = (Inl e, db') \<and>
    \<not> (in_INTEGER (req_idAccount validated) \<and> in_INTEGER (req_idUser validated) \<and>
       validations db (request_inputs validated) = Inl e) \<longrightarrow>
      postHandler isoNow utcnow db body = (Next e, db'))"
proof (intro conjI impI)
  assume bad: "\<not> structurally_valid body"
  then obtain errors where p: "bodySchema_parse body = Inl errors"
    unfolding structurally_valid_iff by (cases "bodySchema_parse body") auto
  from bodySchema_parse_Inl [OF p] p
  show "\<exists>errors. errors \<noteq> [] \<and> issue_path ` set errors = set (violated_paths body) \<and>
         postHandler isoNow utcnow db body =
           (Respond 400 (ErrorResponse \<lparr>code = ''VALIDATION_ERROR'', message = ''Validation failed'',
                                       details = Some errors\<rparr> isoNow), db)"
    by (simp add: postHandler_def errorResponse_def)
next
  assume h: "bodySchema_parse body = Inr validated \<and>
    in_INTEGER (req_idAccount validated) \<and> in_INTEGER (req_idUser validated) \<and>
    validations db (request_inputs validated) = Inl e"
  then have n: "noteCreate utcnow db validated = (Inl e, db)"
    by (simp add: noteCreate_in_range spNoteCreate_rejected)
  from h validations_number have "err_number e = 51000" by blast
  with h n show "postHandler isoNow utcnow db body =
        (Respond 400 (ErrorResponse \<lparr>code = ''BUSINESS_RULE_ERROR'', message = err_message e,
                                    details = None\<rparr> isoNow), db)"
    by (simp add: postHandler_parsed errorResponse_def)
next
  assume h: "bodySchema_parse body = Inr validated \<and>
    noteCreate utcnow db validated = (Inl e, db') \<and>
    \<not> (in_INTEGER (req_idAccount validated) \<and> in_INTEGER (req_idUser validated) \<and>
       validations db (request_inputs validated) = Inl e)"
  with noteCreate_error_kinds have "err_number e \<noteq> 51000" by blast
  with h show "postHandler isoNow utcnow db body = (Next e, db')"
    by (simp add: postHandler_parsed)
qed

section \<open>Success at the controller\<close>

text \<open>
  Claim C10. When the body is valid and the adapter returns a record, the controller
  answers with status 201 and the success envelope whose data is that record and whose
  metadata holds the timestamp only; the record holds the identifier that the procedure
  returned, and the database is the one the procedure left.
\<close>

theorem postHandler_created:
  assumes "bodySchema_parse body = Inr validated"
      and "noteCreate utcnow db validated = (Inr data, db')"
  shows "postHandler isoNow utcnow db body =
           (Respond 201 (SuccessResponse data
              \<lparr>page = None, pageSize = None, total = None, timestamp = isoNow\<rparr>), db')
       \<and> spNoteCreate utcnow db (request_inputs validated) = (Inr (res_idNote data), db')"
proof -
  have range: "in_INTEGER (req_idAccount validated) \<and> in_INTEGER (req_idUser validated)"
  proof (rule ccontr)
    assume "\<not> ?thesis"
    from noteCreate_out_of_range [OF this] assms(2) show False by simp
  qed
  obtain r db1 where sp: "spNoteCreate utcnow db (request_inputs validated) = (r, db1)"
    by (cases "spNoteCreate utcnow db (request_inputs validated)")
  from range have "noteCreate utcnow db validated =
           (case spNoteCreate utcnow db (request_inputs validated) of
              (Inl e, db') \<Rightarrow> (Inl e, db')
            | (Inr idNote, db') \<Rightarrow> (Inr \<lparr>res_idNote = idNote\<rparr>, db'))"
    by (simp add: noteCreate_in_range)
  with assms(2) sp have "r = Inr (res_idNote data) \<and> db1 = db'"
    by (cases r) auto
  with sp have call: "spNoteCreate utcnow db (request_inputs validated) = (Inr (res_idNote data), db')"
    by simp
  from assms have "postHandler isoNow utcnow db body =
           (Respond 201 (SuccessResponse data
              \<lparr>page = None, pageSize = None, total = None, timestamp = isoNow\<rparr>), db')"
    by (simp add: postHandler_parsed successResponse_def)
  with call show ?thesis by simp
qed

section \<open>Scenarios at the controller\<close>

lemma http_empty_title:
  "bodySchema_parse (request_body (JInt 1) (JInt 5) (JString []) (JString ''x'')) =
     Inl [ZodIssue ''too_small'' [''title'']]"
  by (simp add: bodySchema_parse_def request_body_def get_key_def z_number_int_positive_def
        z_string_min_max_def)

lemma http_empty_title_paths:
  "violated_paths (request_body (JInt 1) (JInt 5) (JString []) (JString ''x'')) = [[''title'']]"
  by (simp add: violated_paths_def request_body_def get_key_def positive_integer_def
        string_of_length_def)

lemma http_parse:
  assumes "0 < a" and "0 < u" and "t \<noteq> []" and "length t \<le> 255" and "c \<noteq> []"
  shows "bodySchema_parse (request_body (JInt a) (JInt u) (JString t) (JString c)) =
           Inr \<lparr>req_idAccount = a, req_idUser = u, req_title = t, req_content = c\<rparr>"
proof -
  from assms have len: "1 \<le> length t" "1 \<le> length c"
    by (simp_all add: Suc_le_eq)
  have "bodySchema_parse (JObject [(''idAccount'', JInt a), (''idUser'', JInt u),
            (''title'', JString t), (''content'', JString c)]) =
        Inr \<lparr>req_idAccount = a, req_idUser = u, req_title = t, req_content = c\<rparr>"
    by (rule bodySchema_parse_ok)
       (use assms len in \<open>simp_all add: get_key_def z_number_int_positive_def z_string_min_max_def\<close>)
  then show ?thesis by (simp add: request_body_def)
qed

lemma http_blank_title_rejected:
  "validations scenario_db
     (request_inputs \<lparr>req_idAccount = 1, req_idUser = 5, req_title = ''  '', req_content = ''x''\<rparr>) =
   Inl (THROW_51000 ''titleRequired'')"
  by (simp add: validations_def request_inputs_def bind_NVARCHAR_255_def LTRIM_def RTRIM_def)

lemma small_in_INTEGER: "in_INTEGER 1" "in_INTEGER 5"
  by (simp_all add: in_INTEGER_def)

lemma http_groceries_inputs:
  "request_inputs \<lparr>req_idAccount = 1, req_idUser = 5, req_title = ''Groceries'',
                    req_content = ''Milk, eggs''\<rparr> =
   call_args 1 5 ''Groceries'' ''Milk, eggs''"
  by (simp add: request_inputs_def call_args_def)

lemma http_groceries_exhausted:
  "noteCreate 1000 exhausted_db
     \<lparr>req_idAccount = 1, req_idUser = 5, req_title = ''Groceries'', req_content = ''Milk, eggs''\<rparr> =
   (Inl (SqlError 8115 ''Arithmetic overflow error converting IDENTITY to data type int.''),
    exhausted_db)"
proof -
  have "spNoteCreate 1000 exhausted_db (call_args 1 5 ''Groceries'' ''Milk, eggs'') =
     (Inl (SqlError 8115 ''Arithmetic overflow error converting IDENTITY to data type int.''),
      exhausted_db)"
    by (simp add: spNoteCreate_def groceries_valid_exhausted groceries_insert_exhausted
          ROLLBACK_TRAN_def)
  then show ?thesis
    by (simp add: noteCreate_in_range small_in_INTEGER http_groceries_inputs)
qed

lemma http_groceries_created:
  "noteCreate 1000 scenario_db
     \<lparr>req_idAccount = 1, req_idUser = 5, req_title = ''Groceries'', req_content = ''Milk, eggs''\<rparr> =
   (Inr \<lparr>res_idNote = 1\<rparr>,
    scenario_db\<lparr>note_tbl :=
          [\<lparr>nt_idNote = 1, nt_idAccount = 1, nt_idUser = 5, nt_title = ''Groceries'',
            nt_content = ''Milk, eggs'', nt_dateCreated = 1000, nt_dateModified = 1000,
            nt_deleted = False\<rparr>],
        note_identity := 1\<rparr>)"
  by (simp add: noteCreate_in_range small_in_INTEGER http_groceries_inputs groceries_first)

text \<open>
  An empty title breaks the contract; a title of two spaces passes it and is rejected by
  the procedure; scenario 1 on the exhausted identity column fails in the INSERT.
\<close>

theorem postHandler_failures_witness:
  "postHandler ''2026-01-01T00:00:00.000Z'' 1000 scenario_db
     (request_body (JInt 1) (JInt 5) (JString []) (JString ''x'')) =
     (Respond 400 (ErrorResponse \<lparr>code = ''VALIDATION_ERROR'', message = ''Validation failed'',
                     details = Some [ZodIssue ''too_small'' [''title'']]\<rparr>
                   ''2026-01-01T00:00:00.000Z''), scenario_db)
   \<and> postHandler ''2026-01-01T00:00:00.000Z'' 1000 scenario_db
     (request_body (JInt 1) (JInt 5) (JString ''  '') (JString ''x'')) =
     (Respond 400 (ErrorResponse \<lparr>code = ''BUSINESS_RULE_ERROR'', message = ''titleRequired'',
                     details = None\<rparr> ''2026-01-01T00:00:00.000Z''), scenario_db)
   \<and> postHandler ''2026-01-01T00:00:00.000Z'' 1000 exhausted_db
     (request_body (JInt 1) (JInt 5) (JString ''Groceries'') (JString ''Milk, eggs'')) =
     (Next (SqlError 8115 ''Arithmetic overflow error converting IDENTITY to data type int.''),
      exhausted_db)"
proof -
  have invalid: "\<not> structurally_valid (request_body (JInt 1) (JInt 5) (JString []) (JString ''x''))"
    by (simp add: structurally_valid_def http_empty_title_paths)
  from postHandler_failures
         [of "request_body (JInt 1) (JInt 5) (JString []) (JString ''x'')"
             "''2026-01-01T00:00:00.000Z''" 1000 scenario_db]
       invalid
  obtain errors where
    "postHandler ''2026-01-01T00:00:00.000Z'' 1000 scenario_db
       (request_body (JInt 1) (JInt 5) (JString []) (JString ''x'')) =
     (Respond 400 (ErrorResponse \<lparr>code = ''VALIDATION_ERROR'', message = ''Validation failed'',
                     details = Some errors\<rparr> ''2026-01-01T00:00:00.000Z''), scenario_db)"
    by blast
  then have one: "postHandler ''2026-01-01T00:00:00.000Z'' 1000 scenario_db
     (request_body (JInt 1) (JInt 5) (JString []) (JString ''x'')) =
     (Respond 400 (ErrorResponse \<lparr>code = ''VALIDATION_ERROR'', message = ''Validation failed'',
                     details = Some [ZodIssue ''too_small'' [''title'']]\<rparr>
                   ''2026-01-01T00:00:00.000Z''), scenario_db)"
    by (simp add: postHandler_def http_empty_title errorResponse_def)
  have two: "postHandler ''2026-01-01T00:00:00.000Z'' 1000 scenario_db
     (request_body (JInt 1) (JInt 5) (JString ''  '') (JString ''x'')) =
     (Respond 400 (ErrorResponse \<lparr>code = ''BUSINESS_RULE_ERROR'', message = ''titleRequired'',
                     details = None\<rparr> ''2026-01-01T00:00:00.000Z''), scenario_db)"
    using postHandler_failures
         [of "request_body (JInt 1) (JInt 5) (JString ''  '') (JString ''x'')"
             "''2026-01-01T00:00:00.000Z''" 1000 scenario_db
             "\<lparr>req_idAccount = 1, req_idUser = 5, req_title = ''  '', req_content = ''x''\<rparr>"
             "THROW_51000 ''titleRequired''"]
         http_blank_title_rejected
    by (simp add: http_parse small_in_INTEGER THROW_51000_def)
  have three: "postHandler ''2026-01-01T00:00:00.000Z'' 1000 exhausted_db
     (request_body (JInt 1) (JInt 5) (JString ''Groceries'') (JString ''Milk, eggs'')) =
     (Next (SqlError 8115 ''Arithmetic overflow error converting IDENTITY to data type int.''),
      exhausted_db)"
    using postHandler_failures
         [of "request_body (JInt 1) (JInt 5) (JString ''Groceries'') (JString ''Milk, eggs'')"
             "''2026-01-01T00:00:00.000Z''" 1000 exhausted_db
             "\<lparr>req_idAccount = 1, req_idUser = 5, req_title = ''Groceries'',
               req_content = ''Milk, eggs''\<rparr>"
             "SqlError 8115 ''Arithmetic overflow error converting IDENTITY to data type int.''"
             exhausted_db]
         http_groceries_exhausted
    by (simp add: http_parse http_groceries_inputs groceries_valid_exhausted)
  from one two three show ?thesis by simp
qed

text \<open>Scenario 1 through the controller.\<close>

theorem postHandler_created_witness:
  "postHandler ''2026-01-01T00:00:00.000Z'' 1000 scenario_db
     (request_body (JInt 1) (JInt 5) (JString ''Groceries'') (JString ''Milk, eggs'')) =
     (Respond 201 (SuccessResponse \<lparr>res_idNote = 1\<rparr>
        \<lparr>page = None, pageSize = None, total = None, timestamp = ''2026-01-01T00:00:00.000Z''\<rparr>),
      scenario_db\<lparr>note_tbl :=
          [\<lparr>nt_idNote = 1, nt_idAccount = 1, nt_idUser = 5, nt_title = ''Groceries'',
            nt_content = ''Milk, eggs'', nt_dateCreated = 1000, nt_dateModified = 1000,
            nt_deleted = False\<rparr>],
        note_identity := 1\<rparr>)"
proof -
  have p: "bodySchema_parse
             (request_body (JInt 1) (JInt 5) (JString ''Groceries'') (JString ''Milk, eggs'')) =
           Inr \<lparr>req_idAccount = 1, req_idUser = 5, req_title = ''Groceries'',
                req_content = ''Milk, eggs''\<rparr>"
    by (simp add: http_parse)
  from postHandler_created [OF p http_groceries_created, of "''2026-01-01T00:00:00.000Z''"]
  show ?thesis by simp
qed

section \<open>Blank fields at the controller\<close>

text \<open>
  Claim C9, as the code has it. Take a request whose account and user identifiers are
  positive integers within \<open>INTEGER\<close>, whose title is a string of 1 to 255 characters and
  whose content is a string of at least 1 character. If the title consists of space
  characters only, or the content does, the body passes the schema, the procedure rejects
  the call, and the response has status 400 and code \<open>BUSINESS_RULE_ERROR\<close>, with message
  \<open>titleRequired\<close> when the title is blank and \<open>contentRequired\<close> otherwise; the database
  is unchanged.
\<close>

theorem postHandler_blank_field:
  assumes "get_key kvs ''idAccount'' = JInt a" and "0 < a" and "a \<le> 2147483647"
      and "get_key kvs ''idUser'' = JInt u" and "0 < u" and "u \<le> 2147483647"
      and "get_key kvs ''title'' = JString t" and "1 \<le> length t" and "length t \<le> 255"
      and "get_key kvs ''content'' = JString c" and "1 \<le> length c"
      and "(\<forall>x \<in> set t. x = CHR '' '') \<or> (\<forall>x \<in> set c. x = CHR '' '')"
  shows "bodySchema_parse (JObject kvs) =
           Inr \<lparr>req_idAccount = a, req_idUser = u, req_title = t, req_content = c\<rparr>
       \<and> postHandler isoNow utcnow db (JObject kvs) =
           (Respond 400
              (ErrorResponse
                 \<lparr>code = ''BUSINESS_RULE_ERROR'',
                  message = (if \<forall>x \<in> set t. x = CHR '' '' then ''titleRequired''
                             else ''contentRequired''),
                  details = None\<rparr> isoNow), db)"
proof -
  let ?v = "\<lparr>req_idAccount = a, req_idUser = u, req_title = t, req_content = c\<rparr>"
  from assms(8,11) have ne: "t \<noteq> []" "c \<noteq> []"
    by auto
  have p: "bodySchema_parse (JObject kvs) = Inr ?v"
    by (rule bodySchema_parse_ok)
       (use assms ne in \<open>simp_all add: z_number_int_positive_def z_string_min_max_def\<close>)
  have range: "in_INTEGER (req_idAccount ?v)" "in_INTEGER (req_idUser ?v)"
    using assms by (simp_all add: in_INTEGER_def)
  have bound: "bind_NVARCHAR_255 t = t"
    using assms by (simp add: bind_NVARCHAR_255_def)
  have v: "validations db (request_inputs ?v) =
             Inl (THROW_51000 (if \<forall>x \<in> set t. x = CHR '' '' then ''titleRequired''
                               else ''contentRequired''))"
    using assms(12)
    by (auto simp: validations_def request_inputs_def bound blank_iff_spaces)
  then have n: "noteCreate utcnow db ?v =
             (Inl (THROW_51000 (if \<forall>x \<in> set t. x = CHR '' '' then ''titleRequired''
                               else ''contentRequired'')), db)"
    using range by (simp add: noteCreate_in_range spNoteCreate_rejected)
  have "postHandler isoNow utcnow db (JObject kvs) =
           (Respond 400
              (ErrorResponse
                 \<lparr>code = ''BUSINESS_RULE_ERROR'',
                  message = (if \<forall>x \<in> set t. x = CHR '' '' then ''titleRequired''
                             else ''contentRequired''),
                  details = None\<rparr> isoNow), db)"
    unfolding postHandler_parsed [OF p] n
    by (simp add: THROW_51000_def errorResponse_def)
  with p show ?thesis by simp
qed

text \<open>A title of one space, and a content of one space under a proper title.\<close>

theorem postHandler_blank_field_witness:
  "postHandler ''2026-01-01T00:00:00.000Z'' 1000 scenario_db
     (JObject [(''idAccount'', JInt 1), (''idUser'', JInt 5), (''title'', JString '' ''),
               (''content'', JString ''x'')]) =
     (Respond 400 (ErrorResponse \<lparr>code = ''BUSINESS_RULE_ERROR'', message = ''titleRequired'',
                     details = None\<rparr> ''2026-01-01T00:00:00.000Z''), scenario_db)
   \<and> postHandler ''2026-01-01T00:00:00.000Z'' 1000 scenario_db
     (JObject [(''idAccount'', JInt 1), (''idUser'', JInt 5), (''title'', JString ''Groceries''),
               (''content'', JString '' '')]) =
     (Respond 400 (ErrorResponse \<lparr>code = ''BUSINESS_RULE_ERROR'', message = ''contentRequired'',
                     details = None\<rparr> ''2026-01-01T00:00:00.000Z''), scenario_db)"
  using postHandler_blank_field
          [of "[(''idAccount'', JInt 1), (''idUser'', JInt 5), (''title'', JString '' ''),
                (''content'', JString ''x'')]" 1 5 "'' ''" "''x''"
              "''2026-01-01T00:00:00.000Z''" 1000 scenario_db]
        postHandler_blank_field
          [of "[(''idAccount'', JInt 1), (''idUser'', JInt 5), (''title'', JString ''Groceries''),
                (''content'', JString '' '')]" 1 5 "''Groceries''" "'' ''"
              "''2026-01-01T00:00:00.000Z''" 1000 scenario_db]
  by (simp add: get_key_def)

text \<open>
  Claim C9 as stated fails: a title that is one tab character is whitespace only, passes
  the schema, is not blank for \<open>LTRIM\<close> and \<open>RTRIM\<close>, and the note is created with status 201.
\<close>

theorem postHandler_tab_title_counterexample:
  "postHandler ''2026-01-01T00:00:00.000Z'' 1000 scenario_db
     (request_body (JInt 1) (JInt 5) (JString [CHR 0x09]) (JString ''x'')) =
     (Respond 201 (SuccessResponse \<lparr>res_idNote = 1\<rparr>
        \<lparr>page = None, pageSize = None, total = None, timestamp = ''2026-01-01T00:00:00.000Z''\<rparr>),
      scenario_db\<lparr>note_tbl :=
          [\<lparr>nt_idNote = 1, nt_idAccount = 1, nt_idUser = 5, nt_title = [CHR 0x09],
            nt_content = ''x'', nt_dateCreated = 1000, nt_dateModified = 1000,
            nt_deleted = False\<rparr>],
        note_identity := 1\<rparr>)"
proof -
  have p: "bodySchema_parse (request_body (JInt 1) (JInt 5) (JString [CHR 0x09]) (JString ''x'')) =
           Inr \<lparr>req_idAccount = 1, req_idUser = 5, req_title = [CHR 0x09], req_content = ''x''\<rparr>"
    by (simp add: http_parse)
  have v: "validations scenario_db
             (request_inputs \<lparr>req_idAccount = 1, req_idUser = 5, req_title = [CHR 0x09],
                              req_content = ''x''\<rparr>) =
           Inr \<lparr>p_idAccount = 1, p_idUser = 5, p_title = [CHR 0x09], p_content = ''x''\<rparr>"
    by (simp add: validations_def request_inputs_def bind_NVARCHAR_255_def LTRIM_def RTRIM_def
          LEN_def EXISTS_user_def scenario_db_def)
  have ins: "INSERT_note scenario_db
       (new_row 1000 \<lparr>p_idAccount = 1, p_idUser = 5, p_title = [CHR 0x09], p_content = ''x''\<rparr>) =
     (Inr 1,
      scenario_db\<lparr>note_tbl :=
          [\<lparr>nt_idNote = 1, nt_idAccount = 1, nt_idUser = 5, nt_title = [CHR 0x09],
            nt_content = ''x'', nt_dateCreated = 1000, nt_dateModified = 1000,
            nt_deleted = False\<rparr>],
        note_identity := 1\<rparr>)"
    by (simp add: INSERT_note_def new_row_def scenario_db_def)
  have n: "noteCreate 1000 scenario_db
             \<lparr>req_idAccount = 1, req_idUser = 5, req_title = [CHR 0x09], req_content = ''x''\<rparr> =
     (Inr \<lparr>res_idNote = 1\<rparr>,
      scenario_db\<lparr>note_tbl :=
          [\<lparr>nt_idNote = 1, nt_idAccount = 1, nt_idUser = 5, nt_title = [CHR 0x09],
            nt_content = ''x'', nt_dateCreated = 1000, nt_dateModified = 1000,
            nt_deleted = False\<rparr>],
        note_identity := 1\<rparr>)"
    by (simp add: noteCreate_in_range small_in_INTEGER spNoteCreate_def v ins)
  show ?thesis
    unfolding postHandler_parsed [OF p] n by (simp add: successResponse_def)
qed

end
